theory Spec2Isabelle
  imports Main
begin

section \<open>Python values\<close>

text \<open>
  The values the backend handles as \<open>Any\<close> (filter values, the fields of a module part,
  the body of a created step) are JSON values. A Python dict is kept as the list of its
  items in insertion order; JSON numbers are restricted to integers.
\<close>

datatype json =
    JNull
  | JBool bool
  | JInt int
  | JStr string
  | JList "json list"
  | JDict "(string \<times> json) list"

type_synonym dict = "(string \<times> json) list"

text \<open>Python truthiness, as used by \<open>if filter_value and ...\<close>.\<close>

fun truthy :: "json \<Rightarrow> bool" where
  "truthy JNull = False"
| "truthy (JBool b) = b"
| "truthy (JInt n) = (n \<noteq> 0)"
| "truthy (JStr s) = (s \<noteq> [])"
| "truthy (JList xs) = (xs \<noteq> [])"
| "truthy (JDict kvs) = (kvs \<noteq> [])"

text \<open>\<open>[v] if not isinstance(v, list) else v\<close>\<close>

fun as_value_list :: "json \<Rightarrow> json list" where
  "as_value_list (JList xs) = xs"
| "as_value_list v = [v]"

text \<open>Decimal rendering of integers, as an f-string does it.\<close>

definition digit_char :: "nat \<Rightarrow> char" where
  "digit_char d = ''0123456789'' ! d"

function str_nat :: "nat \<Rightarrow> string" where
  "str_nat n = (if n < 10 then [digit_char n] else str_nat (n div 10) @ [digit_char (n mod 10)])"
  by pat_completeness auto
termination
  by (relation "measure (\<lambda>n. n)") auto

declare str_nat.simps [simp del]

definition str_int :: "int \<Rightarrow> string" where
  "str_int i = (if i < 0 then ''-'' @ str_nat (nat (- i)) else str_nat (nat i))"

text \<open>\<open>xs[:n]\<close>: a negative bound counts from the end.\<close>

definition slice_to :: "int \<Rightarrow> 'a list \<Rightarrow> 'a list" where
  "slice_to n xs = (if n < 0 then take (nat (int (length xs) + n)) xs else take (nat n) xs)"

section \<open>Exceptions\<close>

text \<open>
  \<open>HTTPStatusError\<close> is what \<open>raise_for_status\<close> raises (status code and message);
  a status of 404 is the platform's "not found". \<open>RequestError\<close> stands for a transport
  failure or an unparseable body. \<open>ValidationError\<close> is what a pydantic model raises when
  it refuses a field, with the name of the model; of its text only the headline is kept.
  \<open>HTTPException\<close> is the web framework's exception with its status code and detail.
\<close>

datatype exc =
    HTTPStatusError nat string
  | RequestError string
  | KeyError string
  | TypeError string
  | ValidationError string
  | HTTPException nat string

fun str_exc :: "exc \<Rightarrow> string" where
  "str_exc (HTTPStatusError code msg) = msg"
| "str_exc (RequestError msg) = msg"
| "str_exc (KeyError k) = [CHR 0x27] @ k @ [CHR 0x27]"
| "str_exc (TypeError msg) = msg"
| "str_exc (ValidationError model) = ''1 validation error for '' @ model"
| "str_exc (HTTPException code detail) = str_nat code @ '': '' @ detail"

section \<open>Data model\<close>

record km24_module =
  module_id :: int
  module_title :: string
  module_emoji :: string
  module_description :: "string option"
  module_parts :: "dict list"

record step_part =
  modulePartId :: json
  part_values :: "json list"

record hit =
  hit_title :: string
  hit_date :: "string option"
  hit_summary :: "string option"
  hit_url :: "string option"

record validation_result =
  is_valid :: bool
  sample_hits :: "hit list"
  hit_count :: int
  warnings :: "string list"
  suggestions :: "string list"

text \<open>
  Payloads of the platform. The module payload and the hit count are kept at the types
  the models \<open>KM24Module\<close> and \<open>ValidationResult\<close> accept; a field the code reads with a
  default (\<open>.get\<close>) or by subscript may be absent. The parts of a module and the raw hits
  stay dicts of JSON values, as \<open>Dict[str, Any]\<close> leaves them: a field of a raw hit may be
  absent, null, a string or any other value.
\<close>

record module_data =
  data_id :: "int option"
  data_title :: "string option"
  data_emoji :: "string option"
  data_description :: "string option"
  data_parts :: "dict list option"

type_synonym raw_hit = dict

record hits_data =
  data_count :: "int option"
  data_items :: "raw_hit list option"

section \<open>The platform and the process state\<close>

datatype call =
    GET_modules_basic
  | GET_module_basic int
  | POST_steps_main string int "step_part list" int
  | GET_steps_main_hits json int int string
  | DELETE_steps_main json

text \<open>
  Each field is the outcome of one request followed by \<open>raise_for_status\<close> and, where
  the client reads it, \<open>json()\<close>. The first argument is the list of requests
  made before, so that the platform may answer the same request differently over time.
\<close>

record platform =
  modules_basic :: "call list \<Rightarrow> exc + module_data list option"
  module_basic :: "call list \<Rightarrow> int \<Rightarrow> exc + module_data"
  steps_main_post :: "call list \<Rightarrow> string \<Rightarrow> int \<Rightarrow> step_part list \<Rightarrow> int \<Rightarrow> exc + dict"
  steps_main_hits :: "call list \<Rightarrow> json \<Rightarrow> int \<Rightarrow> int \<Rightarrow> string \<Rightarrow> exc + hits_data"
  steps_main_delete :: "call list \<Rightarrow> json \<Rightarrow> exc + unit"

datatype message =
    Loaded_modules nat
  | Error_fetching_modules exc
  | Loaded_module int string nat
  | Error_fetching_module int exc
  | Created_step json string
  | Error_creating_step exc
  | Fetched_hits nat json
  | Error_fetching_hits json exc
  | Deleted_step json
  | Error_deleting_step json exc
  | Error_validating_filters exc
  | Searching_hits int int
  | Error_in_search_hits exc

datatype log_entry = Info message | Error message

record state =
  has_km24_client :: bool
  modules_cache :: "km24_module list option"
  calls :: "call list"
  log :: "log_entry list"

definition request :: "call \<Rightarrow> state \<Rightarrow> state" where
  "request c s = s\<lparr>calls := calls s @ [c]\<rparr>"

definition logger :: "log_entry \<Rightarrow> state \<Rightarrow> state" where
  "logger l s = s\<lparr>log := log s @ [l]\<rparr>"

section \<open>km24\_client.py\<close>

definition default_emoji :: string where
  "default_emoji = [CHR 0xC3, CHR 0xB0, CHR 0xC5, CHR 0xB8, CHR 0xE2, CHR 0x80, CHR 0x9C, CHR 0xC5, CHR 0xA0]"

definition get_default :: "'a option \<Rightarrow> 'a \<Rightarrow> 'a" where
  "get_default v d = (case v of None \<Rightarrow> d | Some x \<Rightarrow> x)"

text \<open>The \<open>KM24Module(...)\<close> construction of \<open>get_modules\<close>: no parts are read.\<close>

definition summary_module :: "module_data \<Rightarrow> exc + km24_module" where
  "summary_module m =
     (case data_id m of
        None \<Rightarrow> Inl (KeyError ''id'')
      | Some i \<Rightarrow>
          (case data_title m of
             None \<Rightarrow> Inl (KeyError ''title'')
           | Some t \<Rightarrow>
               Inr \<lparr>module_id = i, module_title = t,
                    module_emoji = get_default (data_emoji m) default_emoji,
                    module_description = data_description m,
                    module_parts = []\<rparr>))"

fun summary_modules :: "module_data list \<Rightarrow> exc + km24_module list" where
  "summary_modules [] = Inr []"
| "summary_modules (m # ms) =
     (case summary_module m of
        Inl e \<Rightarrow> Inl e
      | Inr x \<Rightarrow> (case summary_modules ms of Inl e \<Rightarrow> Inl e | Inr xs \<Rightarrow> Inr (x # xs)))"

definition fetch_modules :: "platform \<Rightarrow> state \<Rightarrow> (exc + km24_module list) \<times> state" where
  "fetch_modules P s =
     (let s1 = request GET_modules_basic s in
      case modules_basic P (calls s) of
        Inl e \<Rightarrow> (Inl e, logger (Error (Error_fetching_modules e)) s1)
      | Inr data \<Rightarrow>
          (case summary_modules (get_default data []) of
             Inl e \<Rightarrow> (Inl e, logger (Error (Error_fetching_modules e)) s1)
           | Inr modules \<Rightarrow>
               (Inr modules,
                logger (Info (Loaded_modules (length modules)))
                  (s1\<lparr>modules_cache := Some modules\<rparr>))))"

definition get_modules :: "platform \<Rightarrow> bool \<Rightarrow> state \<Rightarrow> (exc + km24_module list) \<times> state" where
  "get_modules P force_refresh s =
     (case modules_cache s of
        Some (m # ms) \<Rightarrow>
          if \<not> force_refresh then (Inr (m # ms), s) else fetch_modules P s
      | _ \<Rightarrow> fetch_modules P s)"

text \<open>The \<open>KM24Module(...)\<close> construction of \<open>get_module\<close>.\<close>

definition detailed_module :: "module_data \<Rightarrow> exc + km24_module" where
  "detailed_module data =
     (case data_id data of
        None \<Rightarrow> Inl (KeyError ''id'')
      | Some i \<Rightarrow>
          (case data_title data of
             None \<Rightarrow> Inl (KeyError ''title'')
           | Some t \<Rightarrow>
               Inr \<lparr>module_id = i, module_title = t,
                    module_emoji = get_default (data_emoji data) default_emoji,
                    module_description = data_description data,
                    module_parts = get_default (data_parts data) []\<rparr>))"

definition get_module :: "platform \<Rightarrow> int \<Rightarrow> state \<Rightarrow> (exc + km24_module) \<times> state" where
  "get_module P mid s =
     (let s1 = request (GET_module_basic mid) s in
      case module_basic P (calls s) mid of
        Inl e \<Rightarrow> (Inl e, logger (Error (Error_fetching_module mid e)) s1)
      | Inr data \<Rightarrow>
          (case detailed_module data of
             Inl e \<Rightarrow> (Inl e, logger (Error (Error_fetching_module mid e)) s1)
           | Inr m \<Rightarrow>
               (Inr m,
                logger (Info (Loaded_module mid (module_title m) (length (module_parts m)))) s1)))"

definition subscript :: "dict \<Rightarrow> string \<Rightarrow> exc + json" where
  "subscript d k = (case map_of d k of None \<Rightarrow> Inl (KeyError k) | Some v \<Rightarrow> Inr v)"

definition create_step ::
  "platform \<Rightarrow> string \<Rightarrow> int \<Rightarrow> step_part list \<Rightarrow> int \<Rightarrow> state \<Rightarrow> (exc + dict) \<times> state" where
  "create_step P name mid parts lookback_days s =
     (let s1 = request (POST_steps_main name mid parts lookback_days) s in
      case steps_main_post P (calls s) name mid parts lookback_days of
        Inl e \<Rightarrow> (Inl e, logger (Error (Error_creating_step e)) s1)
      | Inr step \<Rightarrow>
          (case subscript step ''id'' of
             Inl e \<Rightarrow> (Inl e, logger (Error (Error_creating_step e)) s1)
           | Inr i \<Rightarrow> (Inr step, logger (Info (Created_step i name)) s1)))"

definition get_step_hits ::
  "platform \<Rightarrow> json \<Rightarrow> int \<Rightarrow> int \<Rightarrow> string \<Rightarrow> state \<Rightarrow> (exc + hits_data) \<times> state" where
  "get_step_hits P step_id page page_size ordering' s =
     (let s1 = request (GET_steps_main_hits step_id page page_size ordering') s in
      case steps_main_hits P (calls s) step_id page page_size ordering' of
        Inl e \<Rightarrow> (Inl e, logger (Error (Error_fetching_hits step_id e)) s1)
      | Inr hits \<Rightarrow>
          (Inr hits,
           logger (Info (Fetched_hits (length (get_default (data_items hits) [])) step_id)) s1))"

definition delete_step :: "platform \<Rightarrow> json \<Rightarrow> state \<Rightarrow> (exc + unit) \<times> state" where
  "delete_step P step_id s =
     (let s1 = request (DELETE_steps_main step_id) s in
      case steps_main_delete P (calls s) step_id of
        Inl e \<Rightarrow> (Inl e, logger (Error (Error_deleting_step step_id e)) s1)
      | Inr u \<Rightarrow> (Inr (), logger (Info (Deleted_step step_id)) s1))"

section \<open>main.py\<close>

text \<open>
  \<open>{p["slug"]: p["id"] for p in module.parts}\<close>. The key is evaluated before the value,
  a later part overrides an earlier one with the same slug, and a list or dict as slug is
  unhashable. The map is only ever read at string keys (the filter names), so a slug that is
  hashable but no string is stored under a key no filter name equals and is left out here.
\<close>

definition unhashable_list :: string where
  "unhashable_list = ''unhashable type: '' @ [CHR 0x27] @ ''list'' @ [CHR 0x27]"

definition unhashable_dict :: string where
  "unhashable_dict = ''unhashable type: '' @ [CHR 0x27] @ ''dict'' @ [CHR 0x27]"

fun part_map_of :: "dict list \<Rightarrow> (string \<rightharpoonup> json) \<Rightarrow> exc + (string \<rightharpoonup> json)" where
  "part_map_of [] part_map = Inr part_map"
| "part_map_of (p # ps) part_map =
     (case subscript p ''slug'' of
        Inl e \<Rightarrow> Inl e
      | Inr slug \<Rightarrow>
          (case subscript p ''id'' of
             Inl e \<Rightarrow> Inl e
           | Inr i \<Rightarrow>
               (case slug of
                  JStr k \<Rightarrow> part_map_of ps (part_map(k \<mapsto> i))
                | JList xs \<Rightarrow> Inl (TypeError unhashable_list)
                | JDict kvs \<Rightarrow> Inl (TypeError unhashable_dict)
                | _ \<Rightarrow> part_map_of ps part_map)))"

text \<open>The loop \<open>for filter_name, filter_value in filters.items()\<close>, appending to \<open>parts\<close>.\<close>

fun filters_to_parts :: "(string \<rightharpoonup> json) \<Rightarrow> dict \<Rightarrow> step_part list \<Rightarrow> step_part list" where
  "filters_to_parts part_map [] parts = parts"
| "filters_to_parts part_map ((filter_name, filter_value) # rest) parts =
     (if truthy filter_value then
        (case part_map filter_name of
           None \<Rightarrow> filters_to_parts part_map rest parts
         | Some i \<Rightarrow>
             filters_to_parts part_map rest
               (parts @ [\<lparr>modulePartId = i, part_values = as_value_list filter_value\<rparr>]))
      else filters_to_parts part_map rest parts)"

text \<open>Lines 259 to 271 together: the part map, then the loop from an empty list.\<close>

definition translate :: "km24_module \<Rightarrow> dict \<Rightarrow> exc + step_part list" where
  "translate m filters =
     (case part_map_of (module_parts m) Map.empty of
        Inl e \<Rightarrow> Inl e
      | Inr part_map \<Rightarrow> Inr (filters_to_parts part_map filters []))"

text \<open>
  What the model \<open>Hit\<close> does with the value given for a field declared \<open>str\<close>, and
  for one declared \<open>Optional[str]\<close>: a string is taken, null is taken by the optional
  field only, and anything else is refused.
\<close>

fun str_field :: "json \<Rightarrow> exc + string" where
  "str_field (JStr s) = Inr s"
| "str_field v = Inl (ValidationError ''Hit'')"

fun optional_str_field :: "json \<Rightarrow> exc + string option" where
  "optional_str_field JNull = Inr None"
| "optional_str_field (JStr s) = Inr (Some s)"
| "optional_str_field v = Inl (ValidationError ''Hit'')"

text \<open>
  \<open>Hit(title=hit.get("title", "Untitled"), date=hit.get("hitDatetime"),
  summary=hit.get("summary", hit.get("description", "")), url=hit.get("url"))\<close>: the
  arguments are read first, \<open>.get\<close> giving its default for a missing key only, and the
  model then raises its one error if it refuses any of them.
\<close>

definition to_hit :: "raw_hit \<Rightarrow> exc + hit" where
  "to_hit h =
     (let title = get_default (map_of h ''title'') (JStr ''Untitled'');
          date = get_default (map_of h ''hitDatetime'') JNull;
          summary = get_default (map_of h ''summary'')
                      (get_default (map_of h ''description'') (JStr []));
          url = get_default (map_of h ''url'') JNull
      in case str_field title of
           Inl e \<Rightarrow> Inl e
         | Inr t \<Rightarrow>
             (case optional_str_field date of
                Inl e \<Rightarrow> Inl e
              | Inr d \<Rightarrow>
                  (case optional_str_field summary of
                     Inl e \<Rightarrow> Inl e
                   | Inr su \<Rightarrow>
                       (case optional_str_field url of
                          Inl e \<Rightarrow> Inl e
                        | Inr u \<Rightarrow>
                            Inr \<lparr>hit_title = t, hit_date = d, hit_summary = su,
                                 hit_url = u\<rparr>))))"

text \<open>The list comprehension over \<open>items[:3]\<close>: the first refused hit raises.\<close>

fun to_hits :: "raw_hit list \<Rightarrow> exc + hit list" where
  "to_hits [] = Inr []"
| "to_hits (h # hs) =
     (case to_hit h of
        Inl e \<Rightarrow> Inl e
      | Inr x \<Rightarrow> (case to_hits hs of Inl e \<Rightarrow> Inl e | Inr xs \<Rightarrow> Inr (x # xs)))"

definition to_sample_hits :: "hits_data \<Rightarrow> exc + hit list" where
  "to_sample_hits hits_data = to_hits (take 3 (get_default (data_items hits_data) []))"

text \<open>The messages, as the UTF-8 bytes of the source's literals.\<close>

definition msg_no_filters :: string where
  "msg_no_filters = ''Ingen filtre valgt''"

definition msg_add_filter :: string where
  "msg_add_filter =
     ''Tilf'' @ [CHR 0xC3, CHR 0xB8] @ ''j mindst '' @ [CHR 0xC3, CHR 0xA9] @
     ''t filter for at indsn'' @ [CHR 0xC3, CHR 0xA6] @ ''vre s'' @ [CHR 0xC3, CHR 0xB8] @
     ''gningen''"

definition msg_no_hits :: string where
  "msg_no_hits = ''Ingen hits fundet med disse filtre''"

definition msg_broaden :: string where
  "msg_broaden =
     ''Pr'' @ [CHR 0xC3, CHR 0xB8] @ ''v at udvide s'' @ [CHR 0xC3, CHR 0xB8] @
     ''gningen ved at fjerne nogle filtre''"

definition msg_high_hit_rate :: "int \<Rightarrow> string" where
  "msg_high_hit_rate n =
     ''Meget h'' @ [CHR 0xC3, CHR 0xB8] @ ''j hitrate ('' @ str_int n @ '' hits)''"

definition msg_narrow :: string where
  "msg_narrow =
     ''Overvej at indsn'' @ [CHR 0xC3, CHR 0xA6] @ ''vre med flere specifikke filtre''"

text \<open>Lines 312 to 329: warnings, suggestions and the result.\<close>

definition classify :: "hit list \<Rightarrow> int \<Rightarrow> validation_result" where
  "classify hits n =
     (let (ws, ss) =
            (if n = 0 then ([msg_no_hits], [msg_broaden])
             else if n > 100 then ([msg_high_hit_rate n], [msg_narrow])
             else ([], []))
      in \<lparr>is_valid = (n > 0), sample_hits = hits, hit_count = n,
          warnings = ws, suggestions = ss\<rparr>)"

definition no_filters_result :: validation_result where
  "no_filters_result =
     \<lparr>is_valid = False, sample_hits = [], hit_count = 0,
      warnings = [msg_no_filters], suggestions = [msg_add_filter]\<rparr>"

text \<open>\<open>f"__temp_validation_{module_id}"\<close>\<close>

definition step_name :: "int \<Rightarrow> string" where
  "step_name mid = ''__temp_validation_'' @ str_int mid"

text \<open>The body of the \<open>try\<close> block of \<open>validate_filters_with_km24\<close>.\<close>

definition validate_try ::
  "platform \<Rightarrow> int \<Rightarrow> dict \<Rightarrow> state \<Rightarrow> (exc + validation_result) \<times> state" where
  "validate_try P mid filters s =
     (case get_module P mid s of
        (Inl e, s1) \<Rightarrow> (Inl e, s1)
      | (Inr m, s1) \<Rightarrow>
          (case translate m filters of
             Inl e \<Rightarrow> (Inl e, s1)
           | Inr parts \<Rightarrow>
               if parts = [] then (Inr no_filters_result, s1)
               else
                 (case create_step P (step_name mid) mid parts 30 s1 of
                    (Inl e, s2) \<Rightarrow> (Inl e, s2)
                  | (Inr step, s2) \<Rightarrow>
                      (case subscript step ''id'' of
                         Inl e \<Rightarrow> (Inl e, s2)
                       | Inr step_id \<Rightarrow>
                           (case get_step_hits P step_id 1 10 ''-hitDatetime'' s2 of
                              (Inl e, s3) \<Rightarrow> (Inl e, s3)
                            | (Inr hits_data, s3) \<Rightarrow>
                                (case to_sample_hits hits_data of
                                   Inl e \<Rightarrow> (Inl e, s3)
                                 | Inr hits \<Rightarrow>
                                     (case delete_step P step_id s3 of
                                        (Inl e, s4) \<Rightarrow> (Inl e, s4)
                                      | (Inr u, s4) \<Rightarrow>
                                          (Inr (classify hits
                                                  (get_default (data_count hits_data) 0)),
                                           s4))))))))"

definition validate_filters_with_km24 ::
  "platform \<Rightarrow> int \<Rightarrow> dict \<Rightarrow> state \<Rightarrow> (exc + validation_result) \<times> state" where
  "validate_filters_with_km24 P mid filters s =
     (if \<not> has_km24_client s then (Inl (HTTPException 500 ''KM24 API not configured''), s)
      else
        (case validate_try P mid filters s of
           (Inl e, s') \<Rightarrow>
             (Inl (HTTPException 500 (''Failed to validate filters: '' @ str_exc e)),
              logger (Error (Error_validating_filters e)) s')
         | (Inr v, s') \<Rightarrow> (Inr v, s')))"

text \<open>The endpoint \<open>search_hits\<close>: an \<open>HTTPException\<close> is re-raised, anything else wrapped.\<close>

definition search_hits ::
  "platform \<Rightarrow> int \<Rightarrow> dict \<Rightarrow> int \<Rightarrow> state \<Rightarrow> (exc + hit list) \<times> state" where
  "search_hits P mid filters limit s =
     (case validate_filters_with_km24 P mid filters (logger (Info (Searching_hits mid limit)) s) of
        (Inr validation, s') \<Rightarrow> (Inr (slice_to limit (sample_hits validation)), s')
      | (Inl (HTTPException code detail), s') \<Rightarrow> (Inl (HTTPException code detail), s')
      | (Inl e, s') \<Rightarrow>
          (Inl (HTTPException 500 (str_exc e)), logger (Error (Error_in_search_hits e)) s'))"

section \<open>Vocabulary of the statements\<close>

text \<open>
  A part the part map can be built from: it has a \<open>slug\<close> and an \<open>id\<close>, and the slug is
  hashable (no list and no dict). Then the slugs of a list of parts, a raw hit whose fields
  \<open>Hit\<close> accepts, and an optional string as the JSON value it came from.
\<close>

fun hashable :: "json \<Rightarrow> bool" where
  "hashable (JList xs) = False"
| "hashable (JDict kvs) = False"
| "hashable v = True"

definition usable_part :: "dict \<Rightarrow> bool" where
  "usable_part p =
     (case map_of p ''slug'' of
        None \<Rightarrow> False
      | Some slug \<Rightarrow> (case map_of p ''id'' of None \<Rightarrow> False | Some i \<Rightarrow> hashable slug))"





definition part_slugs :: "dict list \<Rightarrow> string list" where
  "part_slugs ps =
     concat (map (\<lambda>p. case map_of p ''slug'' of Some (JStr k) \<Rightarrow> [k] | _ \<Rightarrow> []) ps)"

section \<open>A sample platform\<close>

text \<open>
  Every module the sample platform knows has the single part \<open>{id: 5, slug: "kommune"}\<close>,
  except module 120, whose part lacks its slug. Creating a step is rejected for module 130;
  the step of module 140 (id 43) cannot be queried; the step of module 150 (id 44) cannot be
  deleted; the step of module 160 (id 45) has 101 hits. The payload of module 180 lacks its
  title, and the step created for module 190 comes back without an id. The one hit of the
  step of module 200 (id 46) has a null title; the one hit of the step of module 210
  (id 47) has a null summary and a description. A step that was deleted once is
  not found when it is deleted again. Any other step has five hits, the first of them
  without a title and with a description only.
\<close>

definition sample_module :: "int \<Rightarrow> module_data" where
  "sample_module i =
     \<lparr>data_id = Some i, data_title = (if i = 180 then None else Some ''Arbejdstilsyn''),
      data_emoji = None,
      data_description = None,
      data_parts =
        Some [if i = 120 then [(''id'', JInt 5)]
              else [(''id'', JInt 5), (''name'', JStr ''Kommune''),
                    (''slug'', JStr ''kommune''), (''type'', JStr ''municipality'')]]\<rparr>"

definition sample_items :: "raw_hit list" where
  "sample_items =
     [[(''description'', JStr ''d1''), (''url'', JStr ''u1'')],
      [(''title'', JStr ''t2''), (''summary'', JStr ''s2''), (''description'', JStr ''d2'')],
      [(''title'', JStr ''t3''), (''hitDatetime'', JStr ''2024-01-01'')],
      [(''title'', JStr ''t4'')],
      [(''title'', JStr ''t5'')]]"

definition null_title_hits :: hits_data where
  "null_title_hits = \<lparr>data_count = Some 1, data_items = Some [[(''title'', JNull)]]\<rparr>"

definition null_summary_hits :: hits_data where
  "null_summary_hits =
     \<lparr>data_count = Some 1,
      data_items = Some [[(''title'', JStr ''t''), (''summary'', JNull),
                          (''description'', JStr ''d'')]]\<rparr>"

definition sample_hits_data :: hits_data where
  "sample_hits_data = \<lparr>data_count = Some 5, data_items = Some sample_items\<rparr>"

definition sample_platform :: platform where
  "sample_platform =
     \<lparr>modules_basic = (\<lambda>h. Inr (Some [sample_module 110, sample_module 280])),
      module_basic =
        (\<lambda>h i. if i = 110 \<or> i = 120 \<or> i = 130 \<or> i = 140 \<or> i = 150 \<or> i = 160
                   \<or> i = 180 \<or> i = 190 \<or> i = 200 \<or> i = 210
                then Inr (sample_module i)
                else Inl (HTTPStatusError 404 ''Not Found'')),
      steps_main_post =
        (\<lambda>h name i parts days.
           if i = 130 then Inl (HTTPStatusError 400 ''Bad Request'')
           else if i = 140 then Inr [(''id'', JInt 43)]
           else if i = 150 then Inr [(''id'', JInt 44)]
           else if i = 160 then Inr [(''id'', JInt 45)]
           else if i = 190 then Inr [(''name'', JStr name)]
           else if i = 200 then Inr [(''id'', JInt 46)]
           else if i = 210 then Inr [(''id'', JInt 47)]
           else Inr [(''id'', JInt 42)]),
      steps_main_hits =
        (\<lambda>h i page page_size ord.
           if i = JInt 43 then Inl (HTTPStatusError 500 ''Server Error'')
           else if i = JInt 45 then Inr \<lparr>data_count = Some 101, data_items = None\<rparr>
           else if i = JInt 46 then Inr null_title_hits
           else if i = JInt 47 then Inr null_summary_hits
           else Inr sample_hits_data),
      steps_main_delete =
        (\<lambda>h i. if i = JInt 44 \<or> DELETE_steps_main i \<in> set h
               then Inl (HTTPStatusError 404 ''Not Found'')
               else Inr ())\<rparr>"

definition initial_state :: state where
  "initial_state = \<lparr>has_km24_client = True, modules_cache = None, calls = [], log = []\<rparr>"

text \<open>
  The module \<open>get_module\<close> builds from \<open>sample_module i\<close>, for \<open>i\<close> other than 120
  and 180.
\<close>

definition sample_km24_module :: "int \<Rightarrow> km24_module" where
  "sample_km24_module i =
     \<lparr>module_id = i, module_title = ''Arbejdstilsyn'', module_emoji = default_emoji,
      module_description = None,
      module_parts = [[(''id'', JInt 5), (''name'', JStr ''Kommune''),
                       (''slug'', JStr ''kommune''), (''type'', JStr ''municipality'')]]\<rparr>"

definition cached_state :: state where
  "cached_state = initial_state\<lparr>modules_cache := Some [sample_km24_module 110]\<rparr>"

definition kommune_filter :: dict where
  "kommune_filter = [(''kommune'', JStr ''Aarhus'')]"

definition kommune_parts :: "step_part list" where
  "kommune_parts = [\<lparr>modulePartId = JInt 5, part_values = [JStr ''Aarhus'']\<rparr>]"

definition branche_filter :: dict where
  "branche_filter = [(''branche'', JStr ''Byggeri'')]"

text \<open>
  A module of three parts, the first as bare as \<open>{id: 5, slug: "kommune"}\<close>, and a filter
  mapping with an empty value under a slug of the module, a name that is no slug, and a list.
\<close>

definition three_part_module :: km24_module where
  "three_part_module =
     \<lparr>module_id = 110, module_title = ''Arbejdstilsyn'', module_emoji = default_emoji,
      module_description = None,
      module_parts = [[(''id'', JInt 5), (''slug'', JStr ''kommune'')],
                      [(''id'', JInt 9), (''slug'', JStr ''branche'')],
                      [(''id'', JInt 7), (''slug'', JStr ''type'')]]\<rparr>"

definition mixed_filters :: dict where
  "mixed_filters =
     [(''branche'', JStr []), (''kommune'', JStr ''Aarhus''), (''ukendt'', JStr ''x''),
      (''type'', JList [JStr ''a'', JStr ''b''])]"

section \<open>Effects of the client operations\<close>

lemma calls_logger [simp]: "calls (logger l s) = calls s"
  by (simp add: logger_def)

lemma calls_request [simp]: "calls (request c s) = calls s @ [c]"
  by (simp add: request_def)

lemma has_client_logger [simp]: "has_km24_client (logger l s) = has_km24_client s"
  by (simp add: logger_def)

lemma has_client_request [simp]: "has_km24_client (request c s) = has_km24_client s"
  by (simp add: request_def)

lemma cache_logger [simp]: "modules_cache (logger l s) = modules_cache s"
  by (simp add: logger_def)

lemma cache_request [simp]: "modules_cache (request c s) = modules_cache s"
  by (simp add: request_def)

lemma log_logger [simp]: "log (logger l s) = log s @ [l]"
  by (simp add: logger_def)

lemma log_request [simp]: "log (request c s) = log s"
  by (simp add: request_def)

lemma get_module_Inr:
  assumes "module_basic P (calls s) mid = Inr data" and "detailed_module data = Inr m"
  shows "get_module P mid s =
           (Inr m, logger (Info (Loaded_module mid (module_title m) (length (module_parts m))))
                     (request (GET_module_basic mid) s))"
  using assms by (simp add: get_module_def)

lemma get_module_Inl:
  assumes "module_basic P (calls s) mid = Inl e"
  shows "get_module P mid s =
           (Inl e, logger (Error (Error_fetching_module mid e)) (request (GET_module_basic mid) s))"
  using assms by (simp add: get_module_def)

lemma create_step_Inr:
  assumes "steps_main_post P (calls s) name mid parts days = Inr step"
    and "subscript step ''id'' = Inr i"
  shows "create_step P name mid parts days s =
           (Inr step, logger (Info (Created_step i name))
                        (request (POST_steps_main name mid parts days) s))"
  using assms by (simp add: create_step_def)

lemma create_step_Inl:
  assumes "steps_main_post P (calls s) name mid parts days = Inl e"
  shows "create_step P name mid parts days s =
           (Inl e, logger (Error (Error_creating_step e))
                     (request (POST_steps_main name mid parts days) s))"
  using assms by (simp add: create_step_def)

lemma get_step_hits_Inr:
  assumes "steps_main_hits P (calls s) i page page_size ord = Inr hits"
  shows "get_step_hits P i page page_size ord s =
           (Inr hits, logger (Info (Fetched_hits (length (get_default (data_items hits) [])) i))
                        (request (GET_steps_main_hits i page page_size ord) s))"
  using assms by (simp add: get_step_hits_def)

lemma get_step_hits_Inl:
  assumes "steps_main_hits P (calls s) i page page_size ord = Inl e"
  shows "get_step_hits P i page page_size ord s =
           (Inl e, logger (Error (Error_fetching_hits i e))
                     (request (GET_steps_main_hits i page page_size ord) s))"
  using assms by (simp add: get_step_hits_def)

lemma delete_step_Inr:
  assumes "steps_main_delete P (calls s) i = Inr ()"
  shows "delete_step P i s =
           (Inr (), logger (Info (Deleted_step i)) (request (DELETE_steps_main i) s))"
  using assms by (simp add: delete_step_def)

lemma delete_step_Inl:
  assumes "steps_main_delete P (calls s) i = Inl e"
  shows "delete_step P i s =
           (Inl e, logger (Error (Error_deleting_step i e)) (request (DELETE_steps_main i) s))"
  using assms by (simp add: delete_step_def)

lemma get_module_calls:
  "calls (snd (get_module P mid s)) = calls s @ [GET_module_basic mid]"
  by (simp add: get_module_def Let_def split: sum.splits)

lemma create_step_calls:
  "calls (snd (create_step P name mid parts days s)) =
     calls s @ [POST_steps_main name mid parts days]"
  by (simp add: create_step_def Let_def split: sum.splits)

lemma get_step_hits_calls:
  "calls (snd (get_step_hits P i page page_size ord s)) =
     calls s @ [GET_steps_main_hits i page page_size ord]"
  by (simp add: get_step_hits_def Let_def split: sum.splits)

lemma create_step_has_id:
  assumes "create_step P name mid parts days s = (Inr step, s')"
  shows "\<exists>i. subscript step ''id'' = Inr i"
  using assms by (auto simp: create_step_def Let_def split: sum.splits)

section \<open>The projection of the hits\<close>

lemma to_hits_length:
  "to_hits hs = Inr xs \<Longrightarrow> length xs = length hs"
  by (induction hs arbitrary: xs) (auto split: sum.splits)











section \<open>Runs of the validation\<close>

lemma validate_full_run:
  assumes "has_km24_client s"
    and "module_basic P (calls s) mid = Inr data" and "detailed_module data = Inr m"
    and "translate m filters = Inr parts" and "parts \<noteq> []"
    and "steps_main_post P (calls s @ [GET_module_basic mid]) (step_name mid) mid parts 30 = Inr step"
    and "subscript step ''id'' = Inr step_id"
    and "steps_main_hits P
           (calls s @ [GET_module_basic mid, POST_steps_main (step_name mid) mid parts 30])
           step_id 1 10 ''-hitDatetime'' = Inr hits_data"
    and "to_sample_hits hits_data = Inr hits"
    and "steps_main_delete P
           (calls s @ [GET_module_basic mid, POST_steps_main (step_name mid) mid parts 30,
                       GET_steps_main_hits step_id 1 10 ''-hitDatetime''])
           step_id = Inr ()"
  shows "fst (validate_filters_with_km24 P mid filters s) =
           Inr (classify hits (get_default (data_count hits_data) 0))"
    and "calls (snd (validate_filters_with_km24 P mid filters s)) =
           calls s @ [GET_module_basic mid, POST_steps_main (step_name mid) mid parts 30,
                      GET_steps_main_hits step_id 1 10 ''-hitDatetime'',
                      DELETE_steps_main step_id]"
  using assms
  by (simp_all add: validate_filters_with_km24_def validate_try_def get_module_Inr
      create_step_Inr get_step_hits_Inr delete_step_Inr)

lemma sample_hits_at_most_three:
  assumes "validate_filters_with_km24 P mid filters s = (Inr v, s')"
  shows "length (sample_hits v) \<le> 3"
  using assms
  by (auto simp: validate_filters_with_km24_def validate_try_def no_filters_result_def
      classify_def to_sample_hits_def dest!: to_hits_length
      split: if_splits sum.splits prod.splits)

section \<open>The filter translation\<close>

lemma as_value_list_case:
  "as_value_list v = (case v of JList xs \<Rightarrow> xs | _ \<Rightarrow> [v])"
  by (cases v) simp_all

lemma filters_to_parts_append:
  "filters_to_parts part_map filters acc =
     acc @ map (\<lambda>(slug, v). \<lparr>modulePartId = the (part_map slug), part_values = as_value_list v\<rparr>)
             (filter (\<lambda>(slug, v). truthy v \<and> slug \<in> dom part_map) filters)"
proof (induction filters arbitrary: acc)
  case Nil
  show ?case by simp
next
  case (Cons f filters)
  obtain slug v where f: "f = (slug, v)" by (cases f)
  show ?case
    unfolding f by (cases "part_map slug") (auto simp: Cons.IH)
qed

lemma part_map_of_dom:
  "part_map_of ps pm0 = Inr pm \<Longrightarrow> dom pm = dom pm0 \<union> set (part_slugs ps)"
proof (induction ps arbitrary: pm0)
  case Nil
  then show ?case by (simp add: part_slugs_def)
next
  case (Cons p ps)
  from Cons.prems obtain slug i where
    slug: "map_of p ''slug'' = Some slug" and i: "map_of p ''id'' = Some i"
    by (auto simp: subscript_def split: option.splits)
  show ?case
  proof (cases slug)
    case (JStr k)
    with Cons.prems slug i have "part_map_of ps (pm0(k \<mapsto> i)) = Inr pm"
      by (simp add: subscript_def)
    from Cons.IH [OF this] show ?thesis
      using slug JStr by (auto simp: part_slugs_def)
  next
    case JNull
    with Cons.prems slug i have "part_map_of ps pm0 = Inr pm" by (simp add: subscript_def)
    from Cons.IH [OF this] show ?thesis using slug JNull by (simp add: part_slugs_def)
  next
    case (JBool b)
    with Cons.prems slug i have "part_map_of ps pm0 = Inr pm" by (simp add: subscript_def)
    from Cons.IH [OF this] show ?thesis using slug JBool by (simp add: part_slugs_def)
  next
    case (JInt n)
    with Cons.prems slug i have "part_map_of ps pm0 = Inr pm" by (simp add: subscript_def)
    from Cons.IH [OF this] show ?thesis using slug JInt by (simp add: part_slugs_def)
  next
    case (JList xs)
    with Cons.prems slug i show ?thesis by (simp add: subscript_def)
  next
    case (JDict kvs)
    with Cons.prems slug i show ?thesis by (simp add: subscript_def)
  qed
qed

lemma part_map_of_ids:
  "part_map_of ps pm0 = Inr pm \<Longrightarrow> pm k = Some i \<Longrightarrow>
     pm0 k = Some i \<or> (\<exists>p \<in> set ps. map_of p ''slug'' = Some (JStr k) \<and> map_of p ''id'' = Some i)"
proof (induction ps arbitrary: pm0)
  case Nil
  then show ?case by simp
next
  case (Cons p ps)
  from Cons.prems(1) obtain slug j where
    slug: "map_of p ''slug'' = Some slug" and j: "map_of p ''id'' = Some j"
    by (auto simp: subscript_def split: option.splits)
  show ?case
  proof (cases slug)
    case (JStr k')
    with Cons.prems(1) slug j have "part_map_of ps (pm0(k' \<mapsto> j)) = Inr pm"
      by (simp add: subscript_def)
    from Cons.IH [OF this Cons.prems(2)] show ?thesis
      using slug j JStr by (auto split: if_splits)
  next
    case JNull
    with Cons.prems(1) slug j have "part_map_of ps pm0 = Inr pm" by (simp add: subscript_def)
    from Cons.IH [OF this Cons.prems(2)] show ?thesis by auto
  next
    case (JBool b)
    with Cons.prems(1) slug j have "part_map_of ps pm0 = Inr pm" by (simp add: subscript_def)
    from Cons.IH [OF this Cons.prems(2)] show ?thesis by auto
  next
    case (JInt n)
    with Cons.prems(1) slug j have "part_map_of ps pm0 = Inr pm" by (simp add: subscript_def)
    from Cons.IH [OF this Cons.prems(2)] show ?thesis by auto
  next
    case (JList xs)
    with Cons.prems(1) slug j show ?thesis by (simp add: subscript_def)
  next
    case (JDict kvs)
    with Cons.prems(1) slug j show ?thesis by (simp add: subscript_def)
  qed
qed

lemma part_map_of_total:
  "(\<exists>pm. part_map_of ps pm0 = Inr pm) \<longleftrightarrow> list_all usable_part ps"
proof (induction ps arbitrary: pm0)
  case Nil
  show ?case by simp
next
  case (Cons p ps)
  show ?case
  proof (cases "map_of p ''slug''")
    case None
    then show ?thesis by (simp add: subscript_def usable_part_def)
  next
    case (Some slug)
    note slug = this
    show ?thesis
    proof (cases "map_of p ''id''")
      case None
      with slug show ?thesis by (simp add: subscript_def usable_part_def)
    next
      case (Some i)
      with slug show ?thesis
        by (cases slug) (simp_all add: subscript_def usable_part_def Cons.IH)
    qed
  qed
qed

lemma part_map_of_raises:
  assumes "\<not> list_all usable_part ps"
  shows "\<exists>e. part_map_of ps pm0 = Inl e"
proof -
  from assms have "\<not> (\<exists>pm. part_map_of ps pm0 = Inr pm)"
    by (simp add: part_map_of_total)
  then show ?thesis by (cases "part_map_of ps pm0") auto
qed

lemma truthy_iff:
  "truthy v \<longleftrightarrow> v \<notin> {JNull, JBool False, JInt 0, JStr [], JList [], JDict []}"
  by (cases v) auto

lemma surviving_filters_bound:
  assumes "distinct (map fst filters)"
  shows "length (filter (\<lambda>(slug, v). Q v \<and> slug \<in> S) filters)
           \<le> card (set (map fst filters) \<inter> S)"
proof -
  have "length (filter (\<lambda>(slug, v). Q v \<and> slug \<in> S) filters)
          \<le> length (filter (\<lambda>(slug, v). slug \<in> S) filters)"
    by (induction filters) auto
  also have "\<dots> = length (filter (\<lambda>slug. slug \<in> S) (map fst filters))"
    by (induction filters) auto
  also have "\<dots> = card (set (filter (\<lambda>slug. slug \<in> S) (map fst filters)))"
  proof -
    have "distinct (filter (\<lambda>slug. slug \<in> S) (map fst filters))"
      using assms by (rule distinct_filter)
    then show ?thesis by (rule distinct_card [symmetric])
  qed
  also have "set (filter (\<lambda>slug. slug \<in> S) (map fst filters)) = set (map fst filters) \<inter> S"
    by auto
  finally show ?thesis .
qed

text \<open>
  C6, counterexample: the one part of module 120 has no slug, and the translation raises
  \<open>KeyError\<close> on it, whatever the filters, where the claim has it emit step parts for every
  module.
\<close>

theorem translate_counterexample:
  "detailed_module (sample_module 120) =
     Inr ((sample_km24_module 120)\<lparr>module_parts := [[(''id'', JInt 5)]]\<rparr>)
   \<and> translate ((sample_km24_module 120)\<lparr>module_parts := [[(''id'', JInt 5)]]\<rparr>) kommune_filter =
       Inl (KeyError ''slug'')
   \<and> translate ((sample_km24_module 120)\<lparr>module_parts := [[(''id'', JInt 5)]]\<rparr>) [] =
       Inl (KeyError ''slug'')"
  by code_simp

text \<open>
  C6, as the code has it: when every part of the module has a slug and an id and no slug is
  a list or a dict, the translation emits one step part for each pair of the filter mapping
  whose value is none of the falsy values (null, false, 0, the empty string, list and dict)
  and whose name is the slug of a part, in the order of the mapping, and skips every other
  pair; the part id is the id of a part with that slug; a list value is passed on as it is
  and any other value is wrapped in a one-element list; with distinct filter names, the
  output is no longer than the number of names that are slugs of the module. When some part
  lacks its slug or its id, or has a list or a dict as slug, the translation raises.
\<close>

theorem translate_characterisation:
  "(list_all usable_part (module_parts m) \<longrightarrow>
      (\<exists>part_map.
           dom part_map = set (part_slugs (module_parts m))
         \<and> (\<forall>slug i. part_map slug = Some i \<longrightarrow>
               (\<exists>p \<in> set (module_parts m).
                  map_of p ''slug'' = Some (JStr slug) \<and> map_of p ''id'' = Some i))
         \<and> translate m filters =
             Inr (map (\<lambda>(slug, v). \<lparr>modulePartId = the (part_map slug),
                                     part_values = (case v of JList xs \<Rightarrow> xs | _ \<Rightarrow> [v])\<rparr>)
                    (filter (\<lambda>(slug, v).
                               v \<notin> {JNull, JBool False, JInt 0, JStr [], JList [], JDict []}
                               \<and> slug \<in> set (part_slugs (module_parts m)))
                       filters))
         \<and> (\<forall>parts. translate m filters = Inr parts \<and> distinct (map fst filters) \<longrightarrow>
               length parts
                 \<le> card (set (map fst filters) \<inter> set (part_slugs (module_parts m))))))
   \<and> (\<not> list_all usable_part (module_parts m) \<longrightarrow> (\<exists>e. translate m filters = Inl e))"
proof (intro conjI impI)
  assume "list_all usable_part (module_parts m)"
  then obtain pm where pm: "part_map_of (module_parts m) Map.empty = Inr pm"
    using part_map_of_total by blast
  have dom: "dom pm = set (part_slugs (module_parts m))"
    using part_map_of_dom [OF pm] by simp
  have ids: "\<forall>slug i. pm slug = Some i \<longrightarrow>
               (\<exists>p \<in> set (module_parts m).
                  map_of p ''slug'' = Some (JStr slug) \<and> map_of p ''id'' = Some i)"
    using part_map_of_ids [OF pm] by auto
  have tr: "translate m filters =
             Inr (map (\<lambda>(slug, v). \<lparr>modulePartId = the (pm slug),
                                     part_values = (case v of JList xs \<Rightarrow> xs | _ \<Rightarrow> [v])\<rparr>)
                    (filter (\<lambda>(slug, v).
                               v \<notin> {JNull, JBool False, JInt 0, JStr [], JList [], JDict []}
                               \<and> slug \<in> set (part_slugs (module_parts m)))
                       filters))"
    by (simp add: translate_def pm filters_to_parts_append dom as_value_list_case truthy_iff)
  have len: "\<forall>parts. translate m filters = Inr parts \<and> distinct (map fst filters) \<longrightarrow>
               length parts
                 \<le> card (set (map fst filters) \<inter> set (part_slugs (module_parts m)))"
    unfolding tr
    using surviving_filters_bound
            [where Q = "\<lambda>v. v \<notin> {JNull, JBool False, JInt 0, JStr [], JList [], JDict []}"]
    by auto
  from dom ids tr len
  show "\<exists>part_map.
           dom part_map = set (part_slugs (module_parts m))
         \<and> (\<forall>slug i. part_map slug = Some i \<longrightarrow>
               (\<exists>p \<in> set (module_parts m).
                  map_of p ''slug'' = Some (JStr slug) \<and> map_of p ''id'' = Some i))
         \<and> translate m filters =
             Inr (map (\<lambda>(slug, v). \<lparr>modulePartId = the (part_map slug),
                                     part_values = (case v of JList xs \<Rightarrow> xs | _ \<Rightarrow> [v])\<rparr>)
                    (filter (\<lambda>(slug, v).
                               v \<notin> {JNull, JBool False, JInt 0, JStr [], JList [], JDict []}
                               \<and> slug \<in> set (part_slugs (module_parts m)))
                       filters))
         \<and> (\<forall>parts. translate m filters = Inr parts \<and> distinct (map fst filters) \<longrightarrow>
               length parts
                 \<le> card (set (map fst filters) \<inter> set (part_slugs (module_parts m))))"
    by blast
next
  assume "\<not> list_all usable_part (module_parts m)"
  from part_map_of_raises [OF this, of Map.empty]
  show "\<exists>e. translate m filters = Inl e"
    by (auto simp: translate_def)
qed

theorem translate_characterisation_witness:
  "list_all usable_part (module_parts three_part_module)
   \<and> distinct (map fst mixed_filters)
   \<and> translate three_part_module mixed_filters =
       Inr [\<lparr>modulePartId = JInt 5, part_values = [JStr ''Aarhus'']\<rparr>,
            \<lparr>modulePartId = JInt 7, part_values = [JStr ''a'', JStr ''b'']\<rparr>]
   \<and> length [\<lparr>modulePartId = JInt 5, part_values = [JStr ''Aarhus'']\<rparr>,
              \<lparr>modulePartId = JInt 7, part_values = [JStr ''a'', JStr ''b'']\<rparr>]
       \<le> card (set (map fst mixed_filters) \<inter> set (part_slugs (module_parts three_part_module)))
   \<and> \<not> list_all usable_part
         (module_parts ((sample_km24_module 120)\<lparr>module_parts := [[(''id'', JInt 5)]]\<rparr>))
   \<and> (\<exists>e. translate ((sample_km24_module 120)\<lparr>module_parts := [[(''id'', JInt 5)]]\<rparr>)
               mixed_filters = Inl e)"
proof -
  have h: "list_all usable_part (module_parts three_part_module)" by code_simp
  have d: "distinct (map fst mixed_filters)" by code_simp
  have t: "translate three_part_module mixed_filters =
             Inr [\<lparr>modulePartId = JInt 5, part_values = [JStr ''Aarhus'']\<rparr>,
                  \<lparr>modulePartId = JInt 7, part_values = [JStr ''a'', JStr ''b'']\<rparr>]"
    by code_simp
  have n: "\<not> list_all usable_part
             (module_parts ((sample_km24_module 120)\<lparr>module_parts := [[(''id'', JInt 5)]]\<rparr>))"
    by code_simp
  from translate_characterisation [of three_part_module mixed_filters, THEN conjunct1,
                                   rule_format, OF h]
  obtain part_map where
    len: "\<forall>parts. translate three_part_module mixed_filters = Inr parts
                   \<and> distinct (map fst mixed_filters) \<longrightarrow>
            length parts
              \<le> card (set (map fst mixed_filters)
                        \<inter> set (part_slugs (module_parts three_part_module)))"
    by blast
  from len t d
  have bound: "length [\<lparr>modulePartId = JInt 5, part_values = [JStr ''Aarhus'']\<rparr>,
                       \<lparr>modulePartId = JInt 7, part_values = [JStr ''a'', JStr ''b'']\<rparr>]
                 \<le> card (set (map fst mixed_filters)
                           \<inter> set (part_slugs (module_parts three_part_module)))"
    by blast
  from translate_characterisation
         [of "(sample_km24_module 120)\<lparr>module_parts := [[(''id'', JInt 5)]]\<rparr>" mixed_filters,
          THEN conjunct2, rule_format, OF n]
  have raises: "\<exists>e. translate ((sample_km24_module 120)\<lparr>module_parts := [[(''id'', JInt 5)]]\<rparr>)
                      mixed_filters = Inl e" .
  from h d t bound n raises show ?thesis by blast
qed

section \<open>The validation\<close>

text \<open>
  C4: when the translation of the filters against the fetched module is empty, the
  validation returns at once a result that is not valid, has no hits and a hit count of 0,
  carries exactly one warning and one suggestion, and the only request made is the fetch of
  the module: no step is created, queried or deleted.
\<close>

theorem no_usable_filter_short_circuit:
  assumes "has_km24_client s"
    and "module_basic P (calls s) mid = Inr data" and "detailed_module data = Inr m"
    and "translate m filters = Inr []"
  shows "fst (validate_filters_with_km24 P mid filters s) =
           Inr \<lparr>is_valid = False, sample_hits = [], hit_count = 0,
                warnings = [''Ingen filtre valgt''], suggestions = [msg_add_filter]\<rparr>
       \<and> calls (snd (validate_filters_with_km24 P mid filters s)) =
           calls s @ [GET_module_basic mid]"
  using assms
  by (simp add: validate_filters_with_km24_def validate_try_def get_module_Inr
      no_filters_result_def msg_no_filters_def)

theorem no_usable_filter_short_circuit_witness:
  "translate (sample_km24_module 110) branche_filter = Inr []
   \<and> fst (validate_filters_with_km24 sample_platform 110 branche_filter initial_state) =
       Inr \<lparr>is_valid = False, sample_hits = [], hit_count = 0,
            warnings = [''Ingen filtre valgt''], suggestions = [msg_add_filter]\<rparr>
   \<and> calls (snd (validate_filters_with_km24 sample_platform 110 branche_filter initial_state)) =
       [GET_module_basic 110]"
proof -
  have h1: "has_km24_client initial_state" by code_simp
  have h2: "module_basic sample_platform (calls initial_state) 110 = Inr (sample_module 110)"
    by code_simp
  have h3: "detailed_module (sample_module 110) = Inr (sample_km24_module 110)" by code_simp
  have h4: "translate (sample_km24_module 110) branche_filter = Inr []" by code_simp
  have c: "calls initial_state = []" by code_simp
  from no_usable_filter_short_circuit [OF h1 h2 h3 h4] h4 c show ?thesis by simp
qed

text \<open>
  C5: when the hits of the temporary step are fetched with count \<open>n\<close> (0 when the payload
  has no count), their projection succeeds and the step is deleted, the result has that hit count and is valid exactly
  when \<open>n > 0\<close>; at 0 it carries the "no hits" warning and its suggestion, from 1 to 100 no
  warning and no suggestion, and from 101 on the "high hit rate" warning, which spells out
  the count, and its suggestion.
\<close>

theorem hit_count_classification:
  assumes "has_km24_client s"
    and "module_basic P (calls s) mid = Inr data" and "detailed_module data = Inr m"
    and "translate m filters = Inr parts" and "parts \<noteq> []"
    and "steps_main_post P (calls s @ [GET_module_basic mid]) (step_name mid) mid parts 30 = Inr step"
    and "subscript step ''id'' = Inr step_id"
    and "steps_main_hits P
           (calls s @ [GET_module_basic mid, POST_steps_main (step_name mid) mid parts 30])
           step_id 1 10 ''-hitDatetime'' = Inr hits_data"
    and "to_sample_hits hits_data = Inr hits"
    and "steps_main_delete P
           (calls s @ [GET_module_basic mid, POST_steps_main (step_name mid) mid parts 30,
                       GET_steps_main_hits step_id 1 10 ''-hitDatetime''])
           step_id = Inr ()"
    and "n = (case data_count hits_data of None \<Rightarrow> 0 | Some c \<Rightarrow> c)"
  shows "\<exists>v. fst (validate_filters_with_km24 P mid filters s) = Inr v
           \<and> hit_count v = n
           \<and> (is_valid v \<longleftrightarrow> n > 0)
           \<and> (n = 0 \<longrightarrow> warnings v = [''Ingen hits fundet med disse filtre'']
                         \<and> suggestions v = [msg_broaden])
           \<and> (1 \<le> n \<and> n \<le> 100 \<longrightarrow> warnings v = [] \<and> suggestions v = [])
           \<and> (101 \<le> n \<longrightarrow>
                 warnings v = [''Meget h'' @ [CHR 0xC3, CHR 0xB8] @ ''j hitrate ('' @ str_int n
                                 @ '' hits)'']
                 \<and> suggestions v = [msg_narrow])"
proof -
  have n: "get_default (data_count hits_data) 0 = n"
    using assms(11) by (simp add: get_default_def)
  have run: "fst (validate_filters_with_km24 P mid filters s) = Inr (classify hits n)"
    using validate_full_run(1) [OF assms(1-10)] by (simp add: n)
  show ?thesis
    unfolding run by (simp add: classify_def msg_no_hits_def msg_high_hit_rate_def)
qed

theorem hit_count_classification_witness:
  "\<exists>v. fst (validate_filters_with_km24 sample_platform 160 kommune_filter initial_state) = Inr v
        \<and> hit_count v = 101 \<and> is_valid v
        \<and> warnings v = [''Meget h'' @ [CHR 0xC3, CHR 0xB8] @ ''j hitrate (101 hits)'']
        \<and> suggestions v = [msg_narrow]"
proof -
  have h1: "has_km24_client initial_state" by code_simp
  have h2: "module_basic sample_platform (calls initial_state) 160 = Inr (sample_module 160)"
    by code_simp
  have h3: "detailed_module (sample_module 160) = Inr (sample_km24_module 160)" by code_simp
  have h4: "translate (sample_km24_module 160) kommune_filter = Inr kommune_parts" by code_simp
  have h5: "kommune_parts \<noteq> []" by code_simp
  have h6: "steps_main_post sample_platform (calls initial_state @ [GET_module_basic 160])
              (step_name 160) 160 kommune_parts 30 = Inr [(''id'', JInt 45)]"
    by code_simp
  have h7: "subscript [(''id'', JInt 45)] ''id'' = Inr (JInt 45)" by code_simp
  have h8: "steps_main_hits sample_platform
              (calls initial_state @ [GET_module_basic 160,
                 POST_steps_main (step_name 160) 160 kommune_parts 30])
              (JInt 45) 1 10 ''-hitDatetime'' = Inr \<lparr>data_count = Some 101, data_items = None\<rparr>"
    by code_simp
  have hp: "to_sample_hits \<lparr>data_count = Some 101, data_items = None\<rparr> = Inr []"
    by code_simp
  have h9: "steps_main_delete sample_platform
              (calls initial_state @ [GET_module_basic 160,
                 POST_steps_main (step_name 160) 160 kommune_parts 30,
                 GET_steps_main_hits (JInt 45) 1 10 ''-hitDatetime''])
              (JInt 45) = Inr ()"
    by code_simp
  have h10: "(101::int) =
               (case data_count \<lparr>data_count = Some 101, data_items = None\<rparr> of
                  None \<Rightarrow> 0 | Some c \<Rightarrow> c)"
    by simp
  have s: "str_int 101 = ''101''" by code_simp
  from hit_count_classification [OF h1 h2 h3 h4 h5 h6 h7 h8 hp h9 h10] s show ?thesis
    by simp
qed




section \<open>Failures during the validation\<close>

text \<open>
  C1: on the sample platform the step of module 140 is created with id 43 and the fetch of
  its hits fails. The validation then raises without a delete request for step 43: the
  temporary step stays on the platform.
\<close>

theorem hit_fetch_failure_leaks_step:
  "steps_main_post sample_platform [GET_module_basic 140] (step_name 140) 140 kommune_parts 30 =
     Inr [(''id'', JInt 43)]
   \<and> steps_main_hits sample_platform
       [GET_module_basic 140, POST_steps_main (step_name 140) 140 kommune_parts 30]
       (JInt 43) 1 10 ''-hitDatetime'' = Inl (HTTPStatusError 500 ''Server Error'')
   \<and> fst (validate_filters_with_km24 sample_platform 140 kommune_filter initial_state) =
       Inl (HTTPException 500 ''Failed to validate filters: Server Error'')
   \<and> calls (snd (validate_filters_with_km24 sample_platform 140 kommune_filter initial_state)) =
       [GET_module_basic 140,
        POST_steps_main ''__temp_validation_140'' 140 kommune_parts 30,
        GET_steps_main_hits (JInt 43) 1 10 ''-hitDatetime'']
   \<and> DELETE_steps_main (JInt 43)
       \<notin> set (calls (snd (validate_filters_with_km24 sample_platform 140 kommune_filter
                             initial_state)))"
  by code_simp

text \<open>
  C2, counterexample: on the sample platform the hits of the step of module 150 (id 44) are
  fetched, five of them, and the deletion of the step fails; the caller of the validation
  gets an error instead of the result. Likewise \<open>delete_step\<close> raises when it is called
  on a step that an earlier call has deleted.
\<close>

theorem cleanup_failure_counterexample:
  "fst (delete_step sample_platform (JInt 42) initial_state) = Inr ()
   \<and> fst (delete_step sample_platform (JInt 42)
            (snd (delete_step sample_platform (JInt 42) initial_state))) =
       Inl (HTTPStatusError 404 ''Not Found'')
   \<and> steps_main_hits sample_platform
     [GET_module_basic 150, POST_steps_main (step_name 150) 150 kommune_parts 30]
     (JInt 44) 1 10 ''-hitDatetime'' = Inr sample_hits_data
   \<and> steps_main_delete sample_platform
       [GET_module_basic 150, POST_steps_main (step_name 150) 150 kommune_parts 30,
        GET_steps_main_hits (JInt 44) 1 10 ''-hitDatetime'']
       (JInt 44) = Inl (HTTPStatusError 404 ''Not Found'')
   \<and> fst (validate_filters_with_km24 sample_platform 150 kommune_filter initial_state) =
       Inl (HTTPException 500 ''Failed to validate filters: Not Found'')"
  by code_simp

text \<open>
  C2, as the code has it: when the deletion of the temporary step fails, after its hits
  were fetched and projected, \<open>delete_step\<close>
  logs the failure and raises it again, and the validation logs it once more and raises an
  \<open>HTTPException\<close> with status 500 and the failure's message to its caller, in place of the
  result computed from the hits.
\<close>

theorem cleanup_failure_is_reported:
  assumes "has_km24_client s"
    and "module_basic P (calls s) mid = Inr data" and "detailed_module data = Inr m"
    and "translate m filters = Inr parts" and "parts \<noteq> []"
    and "steps_main_post P (calls s @ [GET_module_basic mid]) (step_name mid) mid parts 30 = Inr step"
    and "subscript step ''id'' = Inr step_id"
    and "steps_main_hits P
           (calls s @ [GET_module_basic mid, POST_steps_main (step_name mid) mid parts 30])
           step_id 1 10 ''-hitDatetime'' = Inr hits_data"
    and "to_sample_hits hits_data = Inr hits"
    and "steps_main_delete P
           (calls s @ [GET_module_basic mid, POST_steps_main (step_name mid) mid parts 30,
                       GET_steps_main_hits step_id 1 10 ''-hitDatetime''])
           step_id = Inl e"
  shows "fst (validate_filters_with_km24 P mid filters s) =
           Inl (HTTPException 500 (''Failed to validate filters: '' @ str_exc e))
       \<and> (\<exists>entries. log (snd (validate_filters_with_km24 P mid filters s)) =
             log s @ entries @ [Error (Error_deleting_step step_id e),
                                Error (Error_validating_filters e)])"
  using assms
  by (simp add: validate_filters_with_km24_def validate_try_def get_module_Inr
      create_step_Inr get_step_hits_Inr delete_step_Inl)

theorem cleanup_failure_is_reported_witness:
  "fst (validate_filters_with_km24 sample_platform 150 kommune_filter initial_state) =
     Inl (HTTPException 500 ''Failed to validate filters: Not Found'')
   \<and> (\<exists>entries.
         log (snd (validate_filters_with_km24 sample_platform 150 kommune_filter initial_state)) =
           entries @ [Error (Error_deleting_step (JInt 44) (HTTPStatusError 404 ''Not Found'')),
                      Error (Error_validating_filters (HTTPStatusError 404 ''Not Found''))])"
proof -
  have h1: "has_km24_client initial_state" by code_simp
  have h2: "module_basic sample_platform (calls initial_state) 150 = Inr (sample_module 150)"
    by code_simp
  have h3: "detailed_module (sample_module 150) = Inr (sample_km24_module 150)" by code_simp
  have h4: "translate (sample_km24_module 150) kommune_filter = Inr kommune_parts" by code_simp
  have h5: "kommune_parts \<noteq> []" by code_simp
  have h6: "steps_main_post sample_platform (calls initial_state @ [GET_module_basic 150])
              (step_name 150) 150 kommune_parts 30 = Inr [(''id'', JInt 44)]"
    by code_simp
  have h7: "subscript [(''id'', JInt 44)] ''id'' = Inr (JInt 44)" by code_simp
  have h8: "steps_main_hits sample_platform
              (calls initial_state @ [GET_module_basic 150,
                 POST_steps_main (step_name 150) 150 kommune_parts 30])
              (JInt 44) 1 10 ''-hitDatetime'' = Inr sample_hits_data"
    by code_simp
  have hp: "to_sample_hits sample_hits_data =
              Inr (projr (to_sample_hits sample_hits_data))"
    by code_simp
  have h9: "steps_main_delete sample_platform
              (calls initial_state @ [GET_module_basic 150,
                 POST_steps_main (step_name 150) 150 kommune_parts 30,
                 GET_steps_main_hits (JInt 44) 1 10 ''-hitDatetime''])
              (JInt 44) = Inl (HTTPStatusError 404 ''Not Found'')"
    by code_simp
  have l: "log initial_state = []" by code_simp
  from cleanup_failure_is_reported [OF h1 h2 h3 h4 h5 h6 h7 h8 hp h9] l show ?thesis
    by simp
qed

text \<open>
  C3, counterexample: the sample platform answers the fetch of module 170 with a 404
  "not found" and rejects the step of module 130 with a 400. In both cases the caller of the
  validation gets an \<open>HTTPException\<close> with status 500, not the error the platform gave.
\<close>

theorem upstream_failure_counterexample:
  "module_basic sample_platform (calls initial_state) 170 = Inl (HTTPStatusError 404 ''Not Found'')
   \<and> fst (validate_filters_with_km24 sample_platform 170 kommune_filter initial_state) =
       Inl (HTTPException 500 ''Failed to validate filters: Not Found'')
   \<and> fst (validate_filters_with_km24 sample_platform 170 kommune_filter initial_state) \<noteq>
       Inl (HTTPStatusError 404 ''Not Found'')
   \<and> steps_main_post sample_platform [GET_module_basic 130] (step_name 130) 130 kommune_parts 30 =
       Inl (HTTPStatusError 400 ''Bad Request'')
   \<and> fst (validate_filters_with_km24 sample_platform 130 kommune_filter initial_state) =
       Inl (HTTPException 500 ''Failed to validate filters: Bad Request'')"
  by code_simp

text \<open>
  C3, as the code has it: when \<open>get_module\<close>, the translation, \<open>create_step\<close> or
  \<open>get_step_hits\<close> fails with an error \<open>e\<close>, be it an answer of the platform or a payload
  the client cannot use, the validation raises to its caller an \<open>HTTPException\<close> with
  status 500 whose detail is "Failed to validate filters: " followed by the message of \<open>e\<close>,
  whatever the kind of \<open>e\<close>; the requests made are those up to the failing one, each once,
  so nothing is retried.
\<close>

theorem upstream_failure_reported_as_http_500:
  assumes "has_km24_client s"
  shows
    "(get_module P mid s = (Inl e, s1) \<longrightarrow>
        fst (validate_filters_with_km24 P mid filters s) =
          Inl (HTTPException 500 (''Failed to validate filters: '' @ str_exc e))
      \<and> calls (snd (validate_filters_with_km24 P mid filters s)) =
          calls s @ [GET_module_basic mid])
   \<and> (get_module P mid s = (Inr m, s1) \<longrightarrow> translate m filters = Inl e \<longrightarrow>
        fst (validate_filters_with_km24 P mid filters s) =
          Inl (HTTPException 500 (''Failed to validate filters: '' @ str_exc e))
      \<and> calls (snd (validate_filters_with_km24 P mid filters s)) =
          calls s @ [GET_module_basic mid])
   \<and> (get_module P mid s = (Inr m, s1) \<longrightarrow> translate m filters = Inr parts \<longrightarrow>
      parts \<noteq> [] \<longrightarrow>
      create_step P (step_name mid) mid parts 30 s1 = (Inl e, s2) \<longrightarrow>
        fst (validate_filters_with_km24 P mid filters s) =
          Inl (HTTPException 500 (''Failed to validate filters: '' @ str_exc e))
      \<and> calls (snd (validate_filters_with_km24 P mid filters s)) =
          calls s @ [GET_module_basic mid, POST_steps_main (step_name mid) mid parts 30])
   \<and> (get_module P mid s = (Inr m, s1) \<longrightarrow> translate m filters = Inr parts \<longrightarrow>
      parts \<noteq> [] \<longrightarrow>
      create_step P (step_name mid) mid parts 30 s1 = (Inr step, s2) \<longrightarrow>
      subscript step ''id'' = Inr step_id \<longrightarrow>
      get_step_hits P step_id 1 10 ''-hitDatetime'' s2 = (Inl e, s3) \<longrightarrow>
        fst (validate_filters_with_km24 P mid filters s) =
          Inl (HTTPException 500 (''Failed to validate filters: '' @ str_exc e))
      \<and> calls (snd (validate_filters_with_km24 P mid filters s)) =
          calls s @ [GET_module_basic mid, POST_steps_main (step_name mid) mid parts 30,
                     GET_steps_main_hits step_id 1 10 ''-hitDatetime''])"
proof -
  have c1: "calls s1 = calls s @ [GET_module_basic mid]"
    if "get_module P mid s = (r, s1)" for r
    using get_module_calls [of P mid s] that by simp
  have c2: "calls s2 = calls s1 @ [POST_steps_main (step_name mid) mid parts 30]"
    if "create_step P (step_name mid) mid parts 30 s1 = (r, s2)" for r
    using create_step_calls [of P "step_name mid" mid parts 30 s1] that by simp
  have c3: "calls s3 = calls s2 @ [GET_steps_main_hits step_id 1 10 ''-hitDatetime'']"
    if "get_step_hits P step_id 1 10 ''-hitDatetime'' s2 = (r, s3)" for r
    using get_step_hits_calls [of P step_id 1 10 "''-hitDatetime''" s2] that by simp
  have stage1: "get_module P mid s = (Inl e, s1) \<longrightarrow>
        fst (validate_filters_with_km24 P mid filters s) =
          Inl (HTTPException 500 (''Failed to validate filters: '' @ str_exc e))
      \<and> calls (snd (validate_filters_with_km24 P mid filters s)) =
          calls s @ [GET_module_basic mid]"
    using assms c1 [of "Inl e"]
    by (simp add: validate_filters_with_km24_def validate_try_def)
  have stage2: "get_module P mid s = (Inr m, s1) \<longrightarrow> translate m filters = Inl e \<longrightarrow>
        fst (validate_filters_with_km24 P mid filters s) =
          Inl (HTTPException 500 (''Failed to validate filters: '' @ str_exc e))
      \<and> calls (snd (validate_filters_with_km24 P mid filters s)) =
          calls s @ [GET_module_basic mid]"
    using assms c1 [of "Inr m"]
    by (simp add: validate_filters_with_km24_def validate_try_def)
  have stage3: "get_module P mid s = (Inr m, s1) \<longrightarrow> translate m filters = Inr parts \<longrightarrow>
      parts \<noteq> [] \<longrightarrow>
      create_step P (step_name mid) mid parts 30 s1 = (Inl e, s2) \<longrightarrow>
        fst (validate_filters_with_km24 P mid filters s) =
          Inl (HTTPException 500 (''Failed to validate filters: '' @ str_exc e))
      \<and> calls (snd (validate_filters_with_km24 P mid filters s)) =
          calls s @ [GET_module_basic mid, POST_steps_main (step_name mid) mid parts 30]"
    using assms c1 [of "Inr m"] c2 [of "Inl e"]
    by (simp add: validate_filters_with_km24_def validate_try_def)
  have stage4: "get_module P mid s = (Inr m, s1) \<longrightarrow> translate m filters = Inr parts \<longrightarrow>
      parts \<noteq> [] \<longrightarrow>
      create_step P (step_name mid) mid parts 30 s1 = (Inr step, s2) \<longrightarrow>
      subscript step ''id'' = Inr step_id \<longrightarrow>
      get_step_hits P step_id 1 10 ''-hitDatetime'' s2 = (Inl e, s3) \<longrightarrow>
        fst (validate_filters_with_km24 P mid filters s) =
          Inl (HTTPException 500 (''Failed to validate filters: '' @ str_exc e))
      \<and> calls (snd (validate_filters_with_km24 P mid filters s)) =
          calls s @ [GET_module_basic mid, POST_steps_main (step_name mid) mid parts 30,
                     GET_steps_main_hits step_id 1 10 ''-hitDatetime'']"
    using assms c1 [of "Inr m"] c2 [of "Inr step"] c3 [of "Inl e"]
    by (simp add: validate_filters_with_km24_def validate_try_def)
  from stage1 stage2 stage3 stage4 show ?thesis by blast
qed

theorem upstream_failure_reported_as_http_500_witness:
  "(fst (validate_filters_with_km24 sample_platform 170 kommune_filter initial_state) =
      Inl (HTTPException 500 ''Failed to validate filters: Not Found'')
    \<and> calls (snd (validate_filters_with_km24 sample_platform 170 kommune_filter initial_state)) =
      [GET_module_basic 170])
   \<and> (fst (validate_filters_with_km24 sample_platform 180 kommune_filter initial_state) =
      Inl (HTTPException 500 (''Failed to validate filters: '' @ str_exc (KeyError ''title'')))
    \<and> calls (snd (validate_filters_with_km24 sample_platform 180 kommune_filter initial_state)) =
      [GET_module_basic 180])
   \<and> (fst (validate_filters_with_km24 sample_platform 120 kommune_filter initial_state) =
      Inl (HTTPException 500 (''Failed to validate filters: '' @ str_exc (KeyError ''slug'')))
    \<and> calls (snd (validate_filters_with_km24 sample_platform 120 kommune_filter initial_state)) =
      [GET_module_basic 120])
   \<and> (fst (validate_filters_with_km24 sample_platform 130 kommune_filter initial_state) =
      Inl (HTTPException 500 ''Failed to validate filters: Bad Request'')
    \<and> calls (snd (validate_filters_with_km24 sample_platform 130 kommune_filter initial_state)) =
      [GET_module_basic 130, POST_steps_main (step_name 130) 130 kommune_parts 30])
   \<and> (fst (validate_filters_with_km24 sample_platform 190 kommune_filter initial_state) =
      Inl (HTTPException 500 (''Failed to validate filters: '' @ str_exc (KeyError ''id'')))
    \<and> calls (snd (validate_filters_with_km24 sample_platform 190 kommune_filter initial_state)) =
      [GET_module_basic 190, POST_steps_main (step_name 190) 190 kommune_parts 30])
   \<and> (fst (validate_filters_with_km24 sample_platform 140 kommune_filter initial_state) =
      Inl (HTTPException 500 ''Failed to validate filters: Server Error'')
    \<and> calls (snd (validate_filters_with_km24 sample_platform 140 kommune_filter initial_state)) =
      [GET_module_basic 140, POST_steps_main (step_name 140) 140 kommune_parts 30,
       GET_steps_main_hits (JInt 43) 1 10 ''-hitDatetime''])"
proof -
  have h: "has_km24_client initial_state" by code_simp
  have c: "calls initial_state = []" by code_simp
  note stages = upstream_failure_reported_as_http_500 [OF h]
  have a1: "get_module sample_platform 170 initial_state =
              (Inl (HTTPStatusError 404 ''Not Found''),
               snd (get_module sample_platform 170 initial_state))"
    by code_simp
  have w1: "fst (validate_filters_with_km24 sample_platform 170 kommune_filter initial_state) =
              Inl (HTTPException 500 ''Failed to validate filters: Not Found'')
            \<and> calls (snd (validate_filters_with_km24 sample_platform 170 kommune_filter
                            initial_state)) = [GET_module_basic 170]"
    using stages [THEN conjunct1, rule_format, OF a1] c by simp
  have a2: "get_module sample_platform 180 initial_state =
              (Inl (KeyError ''title''), snd (get_module sample_platform 180 initial_state))"
    by code_simp
  have w2: "fst (validate_filters_with_km24 sample_platform 180 kommune_filter initial_state) =
              Inl (HTTPException 500 (''Failed to validate filters: '' @ str_exc (KeyError ''title'')))
            \<and> calls (snd (validate_filters_with_km24 sample_platform 180 kommune_filter
                            initial_state)) = [GET_module_basic 180]"
    using stages [THEN conjunct1, rule_format, OF a2] c by simp
  have b1: "get_module sample_platform 120 initial_state =
              (Inr ((sample_km24_module 120)\<lparr>module_parts := [[(''id'', JInt 5)]]\<rparr>),
               snd (get_module sample_platform 120 initial_state))"
    by code_simp
  have b2: "translate ((sample_km24_module 120)\<lparr>module_parts := [[(''id'', JInt 5)]]\<rparr>)
              kommune_filter = Inl (KeyError ''slug'')"
    by code_simp
  have w3: "fst (validate_filters_with_km24 sample_platform 120 kommune_filter initial_state) =
              Inl (HTTPException 500 (''Failed to validate filters: '' @ str_exc (KeyError ''slug'')))
            \<and> calls (snd (validate_filters_with_km24 sample_platform 120 kommune_filter
                            initial_state)) = [GET_module_basic 120]"
    using stages [THEN conjunct2, THEN conjunct1, rule_format, OF b1 b2] c by simp
  have p: "kommune_parts \<noteq> []" by code_simp
  have c1: "get_module sample_platform 130 initial_state =
              (Inr (sample_km24_module 130), snd (get_module sample_platform 130 initial_state))"
    by code_simp
  have c2: "translate (sample_km24_module 130) kommune_filter = Inr kommune_parts" by code_simp
  have c3: "create_step sample_platform (step_name 130) 130 kommune_parts 30
              (snd (get_module sample_platform 130 initial_state)) =
              (Inl (HTTPStatusError 400 ''Bad Request''),
               snd (create_step sample_platform (step_name 130) 130 kommune_parts 30
                      (snd (get_module sample_platform 130 initial_state))))"
    by code_simp
  have w4: "fst (validate_filters_with_km24 sample_platform 130 kommune_filter initial_state) =
              Inl (HTTPException 500 ''Failed to validate filters: Bad Request'')
            \<and> calls (snd (validate_filters_with_km24 sample_platform 130 kommune_filter
                            initial_state)) =
                [GET_module_basic 130, POST_steps_main (step_name 130) 130 kommune_parts 30]"
    using stages [THEN conjunct2, THEN conjunct2, THEN conjunct1, rule_format, OF c1 c2 p c3] c
    by simp
  have d1: "get_module sample_platform 190 initial_state =
              (Inr (sample_km24_module 190), snd (get_module sample_platform 190 initial_state))"
    by code_simp
  have d2: "translate (sample_km24_module 190) kommune_filter = Inr kommune_parts" by code_simp
  have d3: "create_step sample_platform (step_name 190) 190 kommune_parts 30
              (snd (get_module sample_platform 190 initial_state)) =
              (Inl (KeyError ''id''),
               snd (create_step sample_platform (step_name 190) 190 kommune_parts 30
                      (snd (get_module sample_platform 190 initial_state))))"
    by code_simp
  have w5: "fst (validate_filters_with_km24 sample_platform 190 kommune_filter initial_state) =
              Inl (HTTPException 500 (''Failed to validate filters: '' @ str_exc (KeyError ''id'')))
            \<and> calls (snd (validate_filters_with_km24 sample_platform 190 kommune_filter
                            initial_state)) =
                [GET_module_basic 190, POST_steps_main (step_name 190) 190 kommune_parts 30]"
    using stages [THEN conjunct2, THEN conjunct2, THEN conjunct1, rule_format, OF d1 d2 p d3] c
    by simp
  have e1: "get_module sample_platform 140 initial_state =
              (Inr (sample_km24_module 140), snd (get_module sample_platform 140 initial_state))"
    by code_simp
  have e2: "translate (sample_km24_module 140) kommune_filter = Inr kommune_parts" by code_simp
  have e3: "create_step sample_platform (step_name 140) 140 kommune_parts 30
              (snd (get_module sample_platform 140 initial_state)) =
              (Inr [(''id'', JInt 43)],
               snd (create_step sample_platform (step_name 140) 140 kommune_parts 30
                      (snd (get_module sample_platform 140 initial_state))))"
    by code_simp
  have e4: "subscript [(''id'', JInt 43)] ''id'' = Inr (JInt 43)" by code_simp
  have e5: "get_step_hits sample_platform (JInt 43) 1 10 ''-hitDatetime''
              (snd (create_step sample_platform (step_name 140) 140 kommune_parts 30
                      (snd (get_module sample_platform 140 initial_state)))) =
              (Inl (HTTPStatusError 500 ''Server Error''),
               snd (get_step_hits sample_platform (JInt 43) 1 10 ''-hitDatetime''
                      (snd (create_step sample_platform (step_name 140) 140 kommune_parts 30
                              (snd (get_module sample_platform 140 initial_state))))))"
    by code_simp
  have w6: "fst (validate_filters_with_km24 sample_platform 140 kommune_filter initial_state) =
              Inl (HTTPException 500 ''Failed to validate filters: Server Error'')
            \<and> calls (snd (validate_filters_with_km24 sample_platform 140 kommune_filter
                            initial_state)) =
                [GET_module_basic 140, POST_steps_main (step_name 140) 140 kommune_parts 30,
                 GET_steps_main_hits (JInt 43) 1 10 ''-hitDatetime'']"
    using stages [THEN conjunct2, THEN conjunct2, THEN conjunct2, rule_format,
                  OF e1 e2 p e3 e4 e5] c
    by simp
  from w1 w2 w3 w4 w5 w6 show ?thesis by blast
qed

section \<open>get\_modules and get\_module\<close>

lemma fetch_modules_calls:
  "calls (snd (fetch_modules P s)) = calls s @ [GET_modules_basic]"
  by (simp add: fetch_modules_def Let_def split: sum.splits)

lemma fetch_modules_cache:
  "(\<forall>fetched. fst (fetch_modules P s) = Inr fetched \<longrightarrow>
      modules_cache (snd (fetch_modules P s)) = Some fetched)
   \<and> (\<forall>e. fst (fetch_modules P s) = Inl e \<longrightarrow>
      modules_cache (snd (fetch_modules P s)) = modules_cache s)"
  by (simp add: fetch_modules_def Let_def split: sum.splits)

lemma fetch_modules_result:
  assumes "modules_basic P (calls s) = Inr data"
    and "summary_modules (case data of None \<Rightarrow> [] | Some ms \<Rightarrow> ms) = Inr fetched"
  shows "fst (fetch_modules P s) = Inr fetched"
  using assms by (simp add: fetch_modules_def get_default_def)

lemma get_modules_miss:
  assumes "modules_cache s = None \<or> modules_cache s = Some [] \<or> force_refresh"
  shows "get_modules P force_refresh s = fetch_modules P s"
  using assms by (auto simp: get_modules_def split: option.splits list.splits)

lemma get_module_ignores_cache:
  "get_module P mid (s\<lparr>modules_cache := c\<rparr>) =
     (fst (get_module P mid s), (snd (get_module P mid s))\<lparr>modules_cache := c\<rparr>)"
  by (simp add: get_module_def request_def logger_def Let_def split: sum.splits)

text \<open>
  C8: with a non-empty cache and no forced refresh, \<open>get_modules\<close> returns the cached list
  and leaves the state as it is, so no request is made. Otherwise it makes the one request
  for the module list; when that succeeds the cache is the fetched list, whole, and when it
  fails the cache is unchanged. \<open>get_module\<close> makes its request whatever the cache holds,
  its result does not depend on the cache and it leaves the cache alone; the module it
  returns carries the parts of the payload.
\<close>

theorem module_list_cache_policy:
  "(modules_cache s = Some ms \<longrightarrow> ms \<noteq> [] \<longrightarrow> \<not> force_refresh \<longrightarrow>
      get_modules P force_refresh s = (Inr ms, s))
   \<and> (modules_cache s = None \<or> modules_cache s = Some [] \<or> force_refresh \<longrightarrow>
        calls (snd (get_modules P force_refresh s)) = calls s @ [GET_modules_basic]
      \<and> (\<forall>fetched. fst (get_modules P force_refresh s) = Inr fetched \<longrightarrow>
            modules_cache (snd (get_modules P force_refresh s)) = Some fetched)
      \<and> (\<forall>e. fst (get_modules P force_refresh s) = Inl e \<longrightarrow>
            modules_cache (snd (get_modules P force_refresh s)) = modules_cache s)
      \<and> (\<forall>data fetched.
            modules_basic P (calls s) = Inr data \<longrightarrow>
            summary_modules (case data of None \<Rightarrow> [] | Some ms \<Rightarrow> ms) = Inr fetched \<longrightarrow>
            fst (get_modules P force_refresh s) = Inr fetched))
   \<and> get_module P mid (s\<lparr>modules_cache := c\<rparr>) =
       (fst (get_module P mid s), (snd (get_module P mid s))\<lparr>modules_cache := c\<rparr>)
   \<and> calls (snd (get_module P mid s)) = calls s @ [GET_module_basic mid]
   \<and> (\<forall>data i t.
         module_basic P (calls s) mid = Inr data \<longrightarrow> data_id data = Some i \<longrightarrow>
         data_title data = Some t \<longrightarrow>
         (\<exists>m. fst (get_module P mid s) = Inr m
             \<and> module_parts m = (case data_parts data of None \<Rightarrow> [] | Some ps \<Rightarrow> ps)))"
proof -
  have hit: "modules_cache s = Some ms \<longrightarrow> ms \<noteq> [] \<longrightarrow> \<not> force_refresh \<longrightarrow>
               get_modules P force_refresh s = (Inr ms, s)"
    by (cases ms) (simp_all add: get_modules_def)
  have miss: "modules_cache s = None \<or> modules_cache s = Some [] \<or> force_refresh \<longrightarrow>
        calls (snd (get_modules P force_refresh s)) = calls s @ [GET_modules_basic]
      \<and> (\<forall>fetched. fst (get_modules P force_refresh s) = Inr fetched \<longrightarrow>
            modules_cache (snd (get_modules P force_refresh s)) = Some fetched)
      \<and> (\<forall>e. fst (get_modules P force_refresh s) = Inl e \<longrightarrow>
            modules_cache (snd (get_modules P force_refresh s)) = modules_cache s)
      \<and> (\<forall>data fetched.
            modules_basic P (calls s) = Inr data \<longrightarrow>
            summary_modules (case data of None \<Rightarrow> [] | Some ms \<Rightarrow> ms) = Inr fetched \<longrightarrow>
            fst (get_modules P force_refresh s) = Inr fetched)"
  proof
    assume "modules_cache s = None \<or> modules_cache s = Some [] \<or> force_refresh"
    then have eq: "get_modules P force_refresh s = fetch_modules P s"
      by (rule get_modules_miss)
    show "calls (snd (get_modules P force_refresh s)) = calls s @ [GET_modules_basic]
      \<and> (\<forall>fetched. fst (get_modules P force_refresh s) = Inr fetched \<longrightarrow>
            modules_cache (snd (get_modules P force_refresh s)) = Some fetched)
      \<and> (\<forall>e. fst (get_modules P force_refresh s) = Inl e \<longrightarrow>
            modules_cache (snd (get_modules P force_refresh s)) = modules_cache s)
      \<and> (\<forall>data fetched.
            modules_basic P (calls s) = Inr data \<longrightarrow>
            summary_modules (case data of None \<Rightarrow> [] | Some ms \<Rightarrow> ms) = Inr fetched \<longrightarrow>
            fst (get_modules P force_refresh s) = Inr fetched)"
      unfolding eq
      using fetch_modules_calls [of P s] fetch_modules_cache [of P s] fetch_modules_result [of P s]
      by blast
  qed
  have calls: "calls (snd (get_module P mid s)) = calls s @ [GET_module_basic mid]"
    by (simp add: get_module_def Let_def split: sum.splits)
  have parts: "\<forall>data i t.
         module_basic P (calls s) mid = Inr data \<longrightarrow> data_id data = Some i \<longrightarrow>
         data_title data = Some t \<longrightarrow>
         (\<exists>m. fst (get_module P mid s) = Inr m
             \<and> module_parts m = (case data_parts data of None \<Rightarrow> [] | Some ps \<Rightarrow> ps))"
    by (simp add: get_module_def detailed_module_def get_default_def)
  from hit miss get_module_ignores_cache [where P = P and mid = mid and s = s and c = c] calls parts
  show ?thesis
    by blast
qed

theorem module_list_cache_policy_witness:
  "get_modules sample_platform False cached_state = (Inr [sample_km24_module 110], cached_state)
   \<and> calls (snd (get_modules sample_platform True cached_state)) = [GET_modules_basic]
   \<and> modules_cache (snd (get_modules sample_platform True cached_state)) =
       Some [(sample_km24_module 110)\<lparr>module_parts := []\<rparr>,
             (sample_km24_module 280)\<lparr>module_parts := []\<rparr>]
   \<and> (\<exists>m. fst (get_module sample_platform 110 cached_state) = Inr m
          \<and> module_parts m = module_parts (sample_km24_module 110))"
proof -
  note policy = module_list_cache_policy [of cached_state _ _ sample_platform]
  have a1: "modules_cache cached_state = Some [sample_km24_module 110]" by code_simp
  have a2: "[sample_km24_module 110] \<noteq> []" by simp
  have w1: "get_modules sample_platform False cached_state =
              (Inr [sample_km24_module 110], cached_state)"
    using policy [of "[sample_km24_module 110]" False, THEN conjunct1, rule_format, OF a1 a2]
    by simp
  have c: "calls cached_state = []" by code_simp
  have b1: "modules_cache cached_state = None \<or> modules_cache cached_state = Some [] \<or> True"
    by simp
  note miss = policy [of _ True, THEN conjunct2, THEN conjunct1, rule_format, OF b1]
  have w2: "calls (snd (get_modules sample_platform True cached_state)) = [GET_modules_basic]"
    using miss [THEN conjunct1] c by simp
  have b2: "modules_basic sample_platform (calls cached_state) =
              Inr (Some [sample_module 110, sample_module 280])"
    by code_simp
  have b3: "summary_modules (case Some [sample_module 110, sample_module 280] of
                               None \<Rightarrow> [] | Some ms \<Rightarrow> ms) =
              Inr [(sample_km24_module 110)\<lparr>module_parts := []\<rparr>,
                   (sample_km24_module 280)\<lparr>module_parts := []\<rparr>]"
    by code_simp
  have fetched: "fst (get_modules sample_platform True cached_state) =
                   Inr [(sample_km24_module 110)\<lparr>module_parts := []\<rparr>,
                        (sample_km24_module 280)\<lparr>module_parts := []\<rparr>]"
    using miss [THEN conjunct2, THEN conjunct2, THEN conjunct2, rule_format, OF b2 b3] .
  have w3: "modules_cache (snd (get_modules sample_platform True cached_state)) =
              Some [(sample_km24_module 110)\<lparr>module_parts := []\<rparr>,
                    (sample_km24_module 280)\<lparr>module_parts := []\<rparr>]"
    using miss [THEN conjunct2, THEN conjunct1, rule_format, OF fetched] .
  have d1: "module_basic sample_platform (calls cached_state) 110 = Inr (sample_module 110)"
    by code_simp
  have d2: "data_id (sample_module 110) = Some 110" by code_simp
  have d3: "data_title (sample_module 110) = Some ''Arbejdstilsyn''" by code_simp
  have d4: "(case data_parts (sample_module 110) of None \<Rightarrow> [] | Some ps \<Rightarrow> ps) =
              module_parts (sample_km24_module 110)"
    by code_simp
  have w4: "\<exists>m. fst (get_module sample_platform 110 cached_state) = Inr m
              \<and> module_parts m = module_parts (sample_km24_module 110)"
    using policy [of _ _ 110, THEN conjunct2, THEN conjunct2, THEN conjunct2, THEN conjunct2,
                  rule_format, OF d1 d2 d3] d4
    by simp
  from w1 w2 w3 w4 show ?thesis by blast
qed

text \<open>
  C10: \<open>get_module\<close> leaves the module-list cache as it found it, whatever the module
  id and whether the fetch succeeds or fails.
\<close>

theorem get_module_keeps_cache:
  "modules_cache (snd (get_module P mid s)) = modules_cache s"
  by (simp add: get_module_def Let_def split: sum.splits)



section \<open>The endpoint search\_hits\<close>

text \<open>
  C9: whatever limit is requested, \<open>search_hits\<close> returns at most three hits: it slices
  the \<open>sample_hits\<close> of the validation, which never has more than three elements.
\<close>

theorem search_hits_at_most_three:
  assumes "search_hits P mid filters limit s = (Inr hs, s')"
  shows "\<exists>v. validate_filters_with_km24 P mid filters (logger (Info (Searching_hits mid limit)) s)
               = (Inr v, s')
             \<and> length (sample_hits v) \<le> 3
             \<and> hs = slice_to limit (sample_hits v)
             \<and> length hs \<le> 3"
proof -
  obtain v where run:
    "validate_filters_with_km24 P mid filters (logger (Info (Searching_hits mid limit)) s) = (Inr v, s')"
    and hs: "hs = slice_to limit (sample_hits v)"
    using assms
    by (auto simp: search_hits_def split: prod.splits sum.splits exc.splits)
  have three: "length (sample_hits v) \<le> 3"
    using run by (rule sample_hits_at_most_three)
  have "length hs \<le> length (sample_hits v)"
    unfolding hs slice_to_def by (cases "limit < 0") simp_all
  with run hs three show ?thesis by auto
qed

theorem search_hits_at_most_three_witness:
  "length sample_items = 5
   \<and> (\<exists>hs s'. search_hits sample_platform 110 kommune_filter 10 initial_state = (Inr hs, s')
          \<and> length hs \<le> 3)"
proof -
  have run: "search_hits sample_platform 110 kommune_filter 10 initial_state =
               (Inr (projr (fst (search_hits sample_platform 110 kommune_filter 10 initial_state))),
                snd (search_hits sample_platform 110 kommune_filter 10 initial_state))"
    by code_simp
  have five: "length sample_items = 5"
    by code_simp
  from search_hits_at_most_three [OF run] run five show ?thesis
    by blast
qed


end
